theory Spec2Isabelle
  imports
    Complex_Main
    "HOL-Library.Char_ord"
    "HOL-Library.List_Lexorder"
    "HOL-Library.Product_Lexorder"
begin

section \<open>Values of the derived columns\<close>

text \<open>
  The columns that pandas derives are float64 columns. They are modelled as reals
  extended with the two infinities and the not-a-number value that float64 division
  produces (\<open>x / 0\<close> is an infinity or NaN in numpy, never an exception). Rounding,
  overflow and the sign of zero are not modelled: a finite value is an exact real.
\<close>

datatype fval = Fin real | PInf | NInf | NaN

fun fsgn :: "fval \<Rightarrow> real" where
  "fsgn (Fin a) = sgn a"
| "fsgn PInf = 1"
| "fsgn NInf = - 1"
| "fsgn NaN = 0"

definition finf :: "real \<Rightarrow> fval" where
  "finf s = (if 0 < s then PInf else if s < 0 then NInf else NaN)"

fun fmul :: "fval \<Rightarrow> fval \<Rightarrow> fval" where
  "fmul NaN _ = NaN"
| "fmul _ NaN = NaN"
| "fmul (Fin a) (Fin b) = Fin (a * b)"
| "fmul x y = finf (fsgn x * fsgn y)"

fun fdiv :: "fval \<Rightarrow> fval \<Rightarrow> fval" where
  "fdiv NaN _ = NaN"
| "fdiv _ NaN = NaN"
| "fdiv (Fin a) (Fin b) = (if b = 0 then finf (sgn a) else Fin (a / b))"
| "fdiv (Fin a) y = Fin 0"
| "fdiv x (Fin b) = finf (fsgn x * (if b < 0 then - 1 else 1))"
| "fdiv x y = NaN"

fun fsub :: "fval \<Rightarrow> fval \<Rightarrow> fval" where
  "fsub NaN _ = NaN"
| "fsub _ NaN = NaN"
| "fsub (Fin a) (Fin b) = Fin (a - b)"
| "fsub (Fin a) y = finf (- fsgn y)"
| "fsub x (Fin b) = x"
| "fsub x y = (if x = y then NaN else x)"

fun fabs :: "fval \<Rightarrow> fval" where
  "fabs (Fin a) = Fin \<bar>a\<bar>"
| "fabs PInf = PInf"
| "fabs NInf = PInf"
| "fabs NaN = NaN"

text \<open>Position of a value that is not NaN on the extended real line.\<close>

fun fkey :: "fval \<Rightarrow> int \<times> real" where
  "fkey (Fin a) = (0, a)"
| "fkey PInf = (1, 0)"
| "fkey NInf = (- 1, 0)"
| "fkey NaN = (2, 0)"

text \<open>The float comparisons: every comparison with NaN is false.\<close>

definition fless :: "fval \<Rightarrow> fval \<Rightarrow> bool" where
  "fless x y = (x \<noteq> NaN \<and> y \<noteq> NaN \<and> fkey x < fkey y)"

definition fle :: "fval \<Rightarrow> fval \<Rightarrow> bool" where
  "fle x y = (x \<noteq> NaN \<and> y \<noteq> NaN \<and> fkey x \<le> fkey y)"

section \<open>The results table\<close>

text \<open>
  One row of the CSV file as \<open>pd.read_csv\<close> delivers it. A cell that is empty in the
  file is a missing value (\<open>None\<close>). The measured cells are finite numbers or missing;
  \<open>op_set\<close> is the text of its cell.
\<close>

record run =
  strategy :: "string option"
  alpha :: "real option"
  op_set :: "string option"
  seed :: "int option"
  final_obj :: "real option"
  total_time :: "real option"
  iterations :: "real option"

text \<open>The table after the loader has added the column \<open>op_set_str\<close>.\<close>

record prepared_run = run +
  op_set_str :: string

datatype py_error = KeyError | IndexError

type_synonym file_system = "string \<rightharpoonup> run list"

definition RESULTS_FILE :: string where
  "RESULTS_FILE = ''experiment_results_detailed.csv''"

section \<open>Console output\<close>

text \<open>
  What the program prints, in order. A table is recorded as the data frame handed to
  \<open>print\<close>; laying it out and rounding it to two decimals is left to the console.
  A data frame with an index is a list of pairs of an index value and the row's columns.
\<close>

record q_agg =
  mean_obj :: fval
  std_obj :: fval
  mean_time :: fval
  num_runs :: nat

record q_row = q_agg +
  CV_obj :: fval

record e_agg =
  mean_obj :: fval
  mean_time :: fval
  mean_iterations :: fval

record e_row = e_agg +
  performance_metric :: fval

record o_row =
  mean_obj :: fval
  mean_time :: fval

record v_agg =
  mean_obj :: fval
  mean_time :: fval

record v_row = v_agg +
  performance_metric :: fval

type_synonym config = "string \<times> real \<times> string"

datatype printed =
    Loading string
  | FileNotFound string
  | DataLoaded nat
  | StepHeader nat
  | QualityTable "(config \<times> q_row) list"
  | BestConfig config fval fval
  | EfficiencyTable "(string \<times> e_row) list"
  | OpSetTable "(string \<times> o_row) list"
  | Tradeoff fval fval
  | Plots "((string \<times> real) \<times> v_agg) list"
  | Plots_v2 "((string \<times> real) \<times> v_row) list" "((string \<times> real) \<times> v_row) list"
  | PlotsGenerated
  | AnalysisComplete

section \<open>The pandas operations the program uses\<close>

text \<open>\<open>Series.astype(str)\<close> on an object column: a missing value becomes the text \<open>nan\<close>.\<close>

definition astype_str :: "string option \<Rightarrow> string" where
  "astype_str c = (case c of None \<Rightarrow> ''nan'' | Some s \<Rightarrow> s)"

text \<open>
  \<open>df.groupby(keys)\<close> with its defaults \<open>dropna=True\<close> and \<open>sort=True\<close>: a row with a
  missing key takes part in no group, and the groups come in ascending order of their key
  (tuples compare lexicographically, strings by code point).
\<close>

definition groupby :: "('r \<Rightarrow> 'k option) \<Rightarrow> 'r list \<Rightarrow> (('k::linorder) \<times> 'r list) list" where
  "groupby key df =
     map (\<lambda>k. (k, filter (\<lambda>r. key r = Some k) df)) (sort (remdups (List.map_filter key df)))"

text \<open>The aggregations skip missing cells.\<close>

definition present :: "'a option list \<Rightarrow> 'a list" where
  "present cells = List.map_filter (\<lambda>c. c) cells"

definition agg_mean :: "real option list \<Rightarrow> fval" where
  "agg_mean cells =
     (let vs = present cells
      in if vs = [] then NaN else Fin (sum_list vs / real (length vs)))"

text \<open>The sample standard deviation (\<open>ddof=1\<close>): undefined below two values.\<close>

definition agg_std :: "real option list \<Rightarrow> fval" where
  "agg_std cells =
     (let vs = present cells; n = length vs; m = sum_list vs / real n
      in if n < 2 then NaN
         else Fin (sqrt (sum_list (map (\<lambda>x. (x - m)\<^sup>2) vs) / real (n - 1))))"

definition agg_count :: "'a option list \<Rightarrow> nat" where
  "agg_count cells = length (present cells)"

text \<open>
  \<open>DataFrame.sort_values(by=col, ascending=...)\<close> on one column, with the default
  \<open>na_position='last'\<close>: the rows whose key is NaN keep their order and go to the end;
  for a descending sort the other rows are reversed, sorted ascending and reversed again
  (pandas \<open>nargsort\<close>). The sort is modelled as insertion sort, which is stable; among
  rows with equal keys numpy's default sort promises no particular order.
\<close>

definition sort_values :: "('c \<Rightarrow> fval) \<Rightarrow> bool \<Rightarrow> ('k \<times> 'c) list \<Rightarrow> ('k \<times> 'c) list" where
  "sort_values col ascending df =
     (let non_nans = filter (\<lambda>r. col (snd r) \<noteq> NaN) df;
          nans = filter (\<lambda>r. col (snd r) = NaN) df
      in (if ascending then sort_key (\<lambda>r. fkey (col (snd r))) non_nans
          else rev (sort_key (\<lambda>r. fkey (col (snd r))) (rev non_nans))) @ nans)"

text \<open>\<open>df.loc[label, column]\<close> on a frame with unique labels.\<close>

definition loc :: "('k \<times> 'c) list \<Rightarrow> 'k \<Rightarrow> ('c \<Rightarrow> 'v) \<Rightarrow> py_error + 'v" where
  "loc df label col = (case map_of df label of None \<Rightarrow> Inl KeyError | Some c \<Rightarrow> Inr (col c))"

section \<open>The loader\<close>

text \<open>
  \<open>load_and_prepare_data\<close> is the same in both files. The file system maps a path to the
  table \<open>pd.read_csv\<close> reads there; a path outside its domain raises FileNotFoundError,
  which the loader catches.
\<close>

definition add_op_set_str :: "run \<Rightarrow> prepared_run" where
  "add_op_set_str r = run.extend r \<lparr>op_set_str = astype_str (op_set r)\<rparr>"

definition load_and_prepare_data ::
  "file_system \<Rightarrow> string \<Rightarrow> printed list \<times> prepared_run list option" where
  "load_and_prepare_data fs file_path =
     (case fs file_path of
        None \<Rightarrow> ([Loading file_path, FileNotFound file_path], None)
      | Some raw \<Rightarrow>
          (let df = map add_op_set_str raw
           in ([Loading file_path, DataLoaded (length df)], Some df)))"

section \<open>Step 1: quality and robustness\<close>

text \<open>The grouping key \<open>['strategy', 'alpha', 'op_set_str']\<close> of a row.\<close>

definition config_key :: "prepared_run \<Rightarrow> config option" where
  "config_key r =
     (case strategy r of
        None \<Rightarrow> None
      | Some s \<Rightarrow> (case alpha r of None \<Rightarrow> None | Some a \<Rightarrow> Some (s, a, op_set_str r)))"

definition quality_agg :: "prepared_run list \<Rightarrow> q_agg" where
  "quality_agg g =
     \<lparr>q_agg.mean_obj = agg_mean (map final_obj g),
      std_obj = agg_std (map final_obj g),
      q_agg.mean_time = agg_mean (map total_time g),
      num_runs = agg_count (map seed g)\<rparr>"

text \<open>The frame \<open>quality_summary\<close> of evaluator.py, with its column \<open>CV_obj\<close>.\<close>

definition add_CV_obj :: "q_agg \<Rightarrow> q_row" where
  "add_CV_obj r =
     q_agg.extend r \<lparr>CV_obj = fmul (fdiv (std_obj r) (q_agg.mean_obj r)) (Fin 100)\<rparr>"

definition quality_summary :: "prepared_run list \<Rightarrow> (config \<times> q_row) list" where
  "quality_summary df =
     map (\<lambda>(k, r). (k, add_CV_obj r))
       (sort_values q_agg.mean_obj True
          (map (\<lambda>(k, g). (k, quality_agg g)) (groupby config_key df)))"

text \<open>The frame \<open>quality_summary\<close> of evaluator_v2.py.\<close>

definition add_CV_obj_v2 :: "q_agg \<Rightarrow> q_row" where
  "add_CV_obj_v2 r =
     q_agg.extend r \<lparr>CV_obj = fmul (fdiv (std_obj r) (fabs (q_agg.mean_obj r))) (Fin 100)\<rparr>"

definition quality_summary_v2 :: "prepared_run list \<Rightarrow> (config \<times> q_row) list" where
  "quality_summary_v2 df =
     map (\<lambda>(k, r). (k, add_CV_obj_v2 r))
       (sort_values q_agg.mean_obj False
          (map (\<lambda>(k, g). (k, quality_agg g)) (groupby config_key df)))"

text \<open>
  After the table (its first 15 rows) the function reads row 0 of the summary:
  \<open>quality_summary.index[0]\<close> raises IndexError on an empty frame.
\<close>

definition report_quality ::
  "(config \<times> q_row) list \<Rightarrow> printed list \<times> (py_error + (config \<times> q_row) list)" where
  "report_quality summary =
     (let out = [StepHeader 1, QualityTable (take 15 summary)]
      in case summary of
           [] \<Rightarrow> (out, Inl IndexError)
         | (best_config, row0) # _ \<Rightarrow>
             (out @ [BestConfig best_config (q_agg.mean_obj row0) (CV_obj row0)], Inr summary))"

definition analyze_quality_and_robustness ::
  "prepared_run list \<Rightarrow> printed list \<times> (py_error + (config \<times> q_row) list)" where
  "analyze_quality_and_robustness df = report_quality (quality_summary df)"

definition analyze_quality_and_robustness_v2 ::
  "prepared_run list \<Rightarrow> printed list \<times> (py_error + (config \<times> q_row) list)" where
  "analyze_quality_and_robustness_v2 df = report_quality (quality_summary_v2 df)"

section \<open>Step 2: efficiency and trade-off\<close>

definition efficiency_agg :: "prepared_run list \<Rightarrow> e_agg" where
  "efficiency_agg g =
     \<lparr>e_agg.mean_obj = agg_mean (map final_obj g),
      e_agg.mean_time = agg_mean (map total_time g),
      mean_iterations = agg_mean (map iterations g)\<rparr>"

text \<open>evaluator.py: the metric is the product, and the frame stays in group order.\<close>

definition add_performance_metric :: "e_agg \<Rightarrow> e_row" where
  "add_performance_metric r =
     e_agg.extend r \<lparr>e_row.performance_metric = fmul (e_agg.mean_obj r) (e_agg.mean_time r)\<rparr>"

definition efficiency_summary :: "prepared_run list \<Rightarrow> (string \<times> e_row) list" where
  "efficiency_summary df =
     map (\<lambda>(k, r). (k, add_performance_metric r))
       (map (\<lambda>(k, g). (k, efficiency_agg g)) (groupby strategy df))"

text \<open>evaluator_v2.py: the metric is the quotient.\<close>

definition add_performance_metric_v2 :: "e_agg \<Rightarrow> e_row" where
  "add_performance_metric_v2 r =
     e_agg.extend r \<lparr>e_row.performance_metric = fdiv (e_agg.mean_obj r) (e_agg.mean_time r)\<rparr>"

definition efficiency_summary_v2 :: "prepared_run list \<Rightarrow> (string \<times> e_row) list" where
  "efficiency_summary_v2 df =
     map (\<lambda>(k, r). (k, add_performance_metric_v2 r))
       (map (\<lambda>(k, g). (k, efficiency_agg g)) (groupby strategy df))"

text \<open>The strategy table as it is printed: evaluator_v2.py sorts it for the display only.\<close>

definition printed_efficiency_summary :: "prepared_run list \<Rightarrow> (string \<times> e_row) list" where
  "printed_efficiency_summary df = efficiency_summary df"

definition printed_efficiency_summary_v2 :: "prepared_run list \<Rightarrow> (string \<times> e_row) list" where
  "printed_efficiency_summary_v2 df =
     sort_values e_row.performance_metric False (efficiency_summary_v2 df)"

definition op_agg :: "prepared_run list \<Rightarrow> o_row" where
  "op_agg g =
     \<lparr>o_row.mean_obj = agg_mean (map final_obj g),
      o_row.mean_time = agg_mean (map total_time g)\<rparr>"

text \<open>The operator-set table is built by the same code in both files.\<close>

definition op_summary :: "prepared_run list \<Rightarrow> (string \<times> o_row) list" where
  "op_summary df =
     sort_values o_row.mean_time True
       (map (\<lambda>(k, g). (k, op_agg g)) (groupby (\<lambda>r. Some (op_set_str r)) df))"

text \<open>Sequencing of lookups that may raise.\<close>

definition raise_or :: "py_error + 'a \<Rightarrow> ('a \<Rightarrow> py_error + 'b) \<Rightarrow> py_error + 'b" where
  "raise_or r f = (case r of Inl e \<Rightarrow> Inl e | Inr v \<Rightarrow> f v)"

text \<open>
  The interpretation block of evaluator.py. Its lookups of the labels \<open>first\<close> and
  \<open>best\<close> are not guarded. The result is the list of lines it prints.
\<close>

definition tradeoff_interpretation :: "(string \<times> e_row) list \<Rightarrow> py_error + printed list" where
  "tradeoff_interpretation es =
     raise_or (loc es ''first'' e_agg.mean_time) (\<lambda>first_time.
     raise_or (loc es ''best'' e_agg.mean_time) (\<lambda>best_time.
       if fless first_time best_time then
         raise_or (loc es ''first'' e_agg.mean_obj) (\<lambda>first_obj.
         raise_or (loc es ''best'' e_agg.mean_obj) (\<lambda>best_obj.
         raise_or (loc es ''best'' e_agg.mean_time) (\<lambda>best_time'.
         raise_or (loc es ''first'' e_agg.mean_time) (\<lambda>first_time'.
           (let quality_diff = fmul (fsub (fdiv first_obj best_obj) (Fin 1)) (Fin 100);
                time_ratio = fdiv best_time' first_time'
            in Inr [Tradeoff time_ratio quality_diff])))))
       else Inr []))"

text \<open>
  The same block in evaluator_v2.py, inside \<open>try: ... except KeyError: pass\<close>, and with
  the quotient of the objectives the other way round.
\<close>

definition tradeoff_body_v2 :: "(string \<times> e_row) list \<Rightarrow> py_error + printed list" where
  "tradeoff_body_v2 es =
     raise_or (loc es ''first'' e_agg.mean_time) (\<lambda>first_time.
     raise_or (loc es ''best'' e_agg.mean_time) (\<lambda>best_time.
       if fless first_time best_time then
         raise_or (loc es ''best'' e_agg.mean_obj) (\<lambda>best_obj.
         raise_or (loc es ''first'' e_agg.mean_obj) (\<lambda>first_obj.
         raise_or (loc es ''best'' e_agg.mean_time) (\<lambda>best_time'.
         raise_or (loc es ''first'' e_agg.mean_time) (\<lambda>first_time'.
           (let quality_diff = fmul (fsub (fdiv best_obj first_obj) (Fin 1)) (Fin 100);
                time_ratio = fdiv best_time' first_time'
            in Inr [Tradeoff time_ratio quality_diff])))))
       else Inr []))"

definition tradeoff_interpretation_v2 :: "(string \<times> e_row) list \<Rightarrow> py_error + printed list" where
  "tradeoff_interpretation_v2 es =
     (case tradeoff_body_v2 es of
        Inl KeyError \<Rightarrow> Inr []
      | Inl e \<Rightarrow> Inl e
      | Inr lines \<Rightarrow> Inr lines)"

definition analyze_efficiency_and_tradeoff ::
  "prepared_run list \<Rightarrow> printed list \<times> (py_error + unit)" where
  "analyze_efficiency_and_tradeoff df =
     (let out = [StepHeader 2, EfficiencyTable (printed_efficiency_summary df),
                 OpSetTable (op_summary df)]
      in case tradeoff_interpretation (efficiency_summary df) of
           Inl e \<Rightarrow> (out, Inl e)
         | Inr lines \<Rightarrow> (out @ lines, Inr ()))"

definition analyze_efficiency_and_tradeoff_v2 ::
  "prepared_run list \<Rightarrow> printed list \<times> (py_error + unit)" where
  "analyze_efficiency_and_tradeoff_v2 df =
     (let out = [StepHeader 2, EfficiencyTable (printed_efficiency_summary_v2 df),
                 OpSetTable (op_summary df)]
      in case tradeoff_interpretation_v2 (efficiency_summary_v2 df) of
           Inl e \<Rightarrow> (out, Inl e)
         | Inr lines \<Rightarrow> (out @ lines, Inr ()))"

section \<open>Step 3: visualization\<close>

definition strategy_alpha_key :: "prepared_run \<Rightarrow> (string \<times> real) option" where
  "strategy_alpha_key r =
     (case strategy r of
        None \<Rightarrow> None
      | Some s \<Rightarrow> (case alpha r of None \<Rightarrow> None | Some a \<Rightarrow> Some (s, a)))"

definition vis_agg :: "prepared_run list \<Rightarrow> v_agg" where
  "vis_agg g =
     \<lparr>v_agg.mean_obj = agg_mean (map final_obj g),
      v_agg.mean_time = agg_mean (map total_time g)\<rparr>"

definition df_agg :: "prepared_run list \<Rightarrow> ((string \<times> real) \<times> v_agg) list" where
  "df_agg df = map (\<lambda>(k, g). (k, vis_agg g)) (groupby strategy_alpha_key df)"

definition df_agg_v2 :: "prepared_run list \<Rightarrow> ((string \<times> real) \<times> v_row) list" where
  "df_agg_v2 df =
     map (\<lambda>(k, r). (k, v_agg.extend r
            \<lparr>v_row.performance_metric = fdiv (v_agg.mean_obj r) (v_agg.mean_time r)\<rparr>))
       (df_agg df)"

definition visualize_results :: "prepared_run list \<Rightarrow> printed list" where
  "visualize_results df = [StepHeader 3, Plots (df_agg df), PlotsGenerated]"

definition visualize_results_v2 :: "prepared_run list \<Rightarrow> printed list" where
  "visualize_results_v2 df =
     [StepHeader 3,
      Plots_v2 (df_agg_v2 df) (sort_values v_row.performance_metric False (df_agg_v2 df)),
      PlotsGenerated]"

section \<open>The pipeline\<close>

text \<open>
  An exception of a step is not caught by \<open>main_analysis\<close>: the run ends there, with
  what was printed so far.
\<close>

definition run_steps ::
  "(prepared_run list \<Rightarrow> printed list \<times> (py_error + 'a)) \<Rightarrow>
   (prepared_run list \<Rightarrow> printed list \<times> (py_error + unit)) \<Rightarrow>
   (prepared_run list \<Rightarrow> printed list) \<Rightarrow>
   file_system \<Rightarrow> printed list \<times> (py_error + unit)" where
  "run_steps step1 step2 step3 fs =
     (case load_and_prepare_data fs RESULTS_FILE of
        (out0, None) \<Rightarrow> (out0, Inr ())
      | (out0, Some df) \<Rightarrow>
          (case step1 df of
             (out1, Inl e) \<Rightarrow> (out0 @ out1, Inl e)
           | (out1, Inr _) \<Rightarrow>
               (case step2 df of
                  (out2, Inl e) \<Rightarrow> (out0 @ out1 @ out2, Inl e)
                | (out2, Inr _) \<Rightarrow>
                    (out0 @ out1 @ out2 @ step3 df @ [AnalysisComplete], Inr ()))))"

definition main_analysis :: "file_system \<Rightarrow> printed list \<times> (py_error + unit)" where
  "main_analysis =
     run_steps analyze_quality_and_robustness analyze_efficiency_and_tradeoff visualize_results"

definition main_analysis_v2 :: "file_system \<Rightarrow> printed list \<times> (py_error + unit)" where
  "main_analysis_v2 =
     run_steps analyze_quality_and_robustness_v2 analyze_efficiency_and_tradeoff_v2
       visualize_results_v2"

section \<open>Example tables\<close>

text \<open>A row with every cell present.\<close>

definition mk_run ::
  "string \<Rightarrow> real \<Rightarrow> string \<Rightarrow> int \<Rightarrow> real \<Rightarrow> real \<Rightarrow> real \<Rightarrow> run" where
  "mk_run s a p sd obj t it =
     \<lparr>strategy = Some s, alpha = Some a, op_set = Some p, seed = Some sd,
      final_obj = Some obj, total_time = Some t, iterations = Some it\<rparr>"

text \<open>One configuration, run once.\<close>

definition single_run_table :: "prepared_run list" where
  "single_run_table = map add_op_set_str [mk_run ''X'' 1 ''[a]'' 1 10 2 7]"

text \<open>
  A results file with the two named strategies; the second row has no operator set.
\<close>

definition example_raw :: "run list" where
  "example_raw =
     [mk_run ''first'' 1 ''[a]'' 1 100 1 7,
      (mk_run ''best'' 1 ''[a]'' 1 90 5 9)\<lparr>op_set := None\<rparr>]"

definition example_fs :: file_system where
  "example_fs = [RESULTS_FILE \<mapsto> example_raw]"

text \<open>One configuration with negative objective values.\<close>

definition negative_table :: "prepared_run list" where
  "negative_table = map add_op_set_str
     [mk_run ''X'' 1 ''[a]'' 1 (- 10) 2 7, mk_run ''X'' 1 ''[a]'' 2 (- 20) 2 7,
      mk_run ''X'' 1 ''[a]'' 3 (- 30) 2 7]"

text \<open>A table without the strategy \<open>best\<close>.\<close>

definition first_only_table :: "prepared_run list" where
  "first_only_table = map add_op_set_str
     [mk_run ''first'' 1 ''[a]'' 1 100 1 7, mk_run ''first'' 1 ''[a]'' 2 110 3 9]"

text \<open>Scenario B: \<open>first\<close> is the faster strategy, \<open>best\<close> the better one.\<close>

definition scenario_B :: "prepared_run list" where
  "scenario_B = map add_op_set_str example_raw"

text \<open>A table on which \<open>first\<close> is the slower strategy.\<close>

definition reversed_table :: "prepared_run list" where
  "reversed_table = map add_op_set_str
     [mk_run ''first'' 1 ''[a]'' 1 100 5 7, mk_run ''best'' 1 ''[a]'' 1 90 1 9]"

section \<open>Orders on a sorted column\<close>

text \<open>
  What \<open>sort_values\<close> establishes between a row and a later row: the values ascend
  (or descend), and a NaN is only followed by NaN.
\<close>

definition ordered_asc :: "fval \<Rightarrow> fval \<Rightarrow> bool" where
  "ordered_asc x y = (y = NaN \<or> fle x y)"

definition ordered_desc :: "fval \<Rightarrow> fval \<Rightarrow> bool" where
  "ordered_desc x y = (y = NaN \<or> fle y x)"

section \<open>Vocabulary of the grouping properties\<close>

text \<open>The three grouping cells of a row of the table, missing or not.\<close>

definition source_triple :: "prepared_run \<Rightarrow> string option \<times> real option \<times> string" where
  "source_triple r = (strategy r, alpha r, op_set_str r)"

text \<open>A group key of the quality summary, read as three present cells.\<close>

definition present_triple :: "config \<Rightarrow> string option \<times> real option \<times> string" where
  "present_triple k = (case k of (s, a, p) \<Rightarrow> (Some s, Some a, p))"

definition has_config :: "prepared_run \<Rightarrow> bool" where
  "has_config r = (strategy r \<noteq> None \<and> alpha r \<noteq> None)"

definition has_strategy :: "prepared_run \<Rightarrow> bool" where
  "has_strategy r = (strategy r \<noteq> None)"

section \<open>Example tables with missing cells\<close>

text \<open>Scenario A: three runs of one configuration.\<close>

definition scenario_A :: "prepared_run list" where
  "scenario_A = map add_op_set_str
     [mk_run ''X'' 1 ''[a]'' 1 10 2 7, mk_run ''X'' 1 ''[a]'' 2 20 2 7,
      mk_run ''X'' 1 ''[a]'' 3 30 2 7]"

definition missing_strategy_table :: "prepared_run list" where
  "missing_strategy_table = map add_op_set_str
     [(mk_run ''first'' 1 ''[a]'' 1 100 1 7)\<lparr>strategy := None\<rparr>]"

definition missing_seed_table :: "prepared_run list" where
  "missing_seed_table = map add_op_set_str
     [(mk_run ''first'' 1 ''[a]'' 1 100 1 7)\<lparr>seed := None\<rparr>]"

definition missing_alpha_table :: "prepared_run list" where
  "missing_alpha_table = map add_op_set_str
     [(mk_run ''first'' 1 ''[a]'' 1 100 1 7)\<lparr>alpha := None\<rparr>]"

definition missing_cells_raw :: "run list" where
  "missing_cells_raw =
     [(mk_run ''first'' 1 ''[a]'' 1 100 1 7)\<lparr>op_set := None\<rparr>,
      (mk_run ''first'' 1 ''[a]'' 2 80 1 7)\<lparr>strategy := None\<rparr>,
      mk_run ''best'' 2 ''[b]'' 1 90 5 9,
      (mk_run ''best'' 2 ''[b]'' 2 70 3 9)\<lparr>alpha := None\<rparr>]"

text \<open>Three configurations whose means are all defined.\<close>

definition three_config_table :: "prepared_run list" where
  "three_config_table = map add_op_set_str
     [mk_run ''X'' 1 ''[a]'' 1 30 3 7, mk_run ''Y'' 1 ''[b]'' 1 10 1 7,
      mk_run ''Z'' 2 ''[c]'' 1 20 2 7]"

text \<open>The first configuration has neither an objective nor a time.\<close>

definition undefined_mean_table :: "prepared_run list" where
  "undefined_mean_table = map add_op_set_str
     [(mk_run ''a'' 1 ''[a]'' 1 0 0 7)\<lparr>final_obj := None, total_time := None\<rparr>,
      mk_run ''b'' 1 ''[b]'' 1 5 1 7]"

section \<open>Facts about the pandas operations\<close>

lemmas eval_defs =
  mk_run_def add_op_set_str_def astype_str_def run.defs q_agg.defs e_agg.defs v_agg.defs
  groupby_def List.map_filter_def config_key_def strategy_alpha_key_def
  quality_agg_def efficiency_agg_def op_agg_def vis_agg_def
  agg_mean_def agg_std_def agg_count_def present_def sort_values_def Let_def
  add_CV_obj_def add_CV_obj_v2_def quality_summary_def quality_summary_v2_def
  add_performance_metric_def add_performance_metric_v2_def
  efficiency_summary_def efficiency_summary_v2_def
  printed_efficiency_summary_def printed_efficiency_summary_v2_def op_summary_def
  df_agg_def df_agg_v2_def finf_def

lemma set_sort_values: "set (sort_values col asc df) = set df"
  by (auto simp: sort_values_def Let_def)

lemma length_present_le: "length (present cells) \<le> length cells"
  by (simp add: present_def List.map_filter_def)

lemma agg_std_single: "length cells \<le> 1 \<Longrightarrow> agg_std cells = NaN"
  using length_present_le [of cells] by (simp add: agg_std_def Let_def)

lemma set_groupby:
  "set (groupby key df) =
     (\<lambda>k. (k, filter (\<lambda>r. key r = Some k) df)) ` {k. \<exists>r \<in> set df. key r = Some k}"
  by (force simp: groupby_def List.map_filter_def image_iff)

lemma keys_groupby: "map fst (groupby key df) = sort (remdups (List.map_filter key df))"
  by (simp add: groupby_def comp_def)

lemma quality_summary_mem:
  "(k, r) \<in> set (quality_summary df) \<longleftrightarrow>
     (\<exists>x \<in> set df. config_key x = Some k) \<and>
     r = add_CV_obj (quality_agg (filter (\<lambda>x. config_key x = Some k) df))"
  by (auto simp: quality_summary_def set_sort_values set_groupby image_iff)

lemma quality_summary_v2_mem:
  "(k, r) \<in> set (quality_summary_v2 df) \<longleftrightarrow>
     (\<exists>x \<in> set df. config_key x = Some k) \<and>
     r = add_CV_obj_v2 (quality_agg (filter (\<lambda>x. config_key x = Some k) df))"
  by (auto simp: quality_summary_v2_def set_sort_values set_groupby image_iff)

lemma std_obj_add_CV_obj: "std_obj (add_CV_obj r) = std_obj r"
  by (simp add: add_CV_obj_def q_agg.defs)

lemma std_obj_add_CV_obj_v2: "std_obj (add_CV_obj_v2 r) = std_obj r"
  by (simp add: add_CV_obj_v2_def q_agg.defs)

lemma CV_obj_add_CV_obj:
  "CV_obj (add_CV_obj r) = fmul (fdiv (std_obj r) (q_agg.mean_obj r)) (Fin 100)"
  by (simp add: add_CV_obj_def q_agg.defs)

lemma CV_obj_add_CV_obj_v2:
  "CV_obj (add_CV_obj_v2 r) = fmul (fdiv (std_obj r) (fabs (q_agg.mean_obj r))) (Fin 100)"
  by (simp add: add_CV_obj_v2_def q_agg.defs)

section \<open>A configuration that was run once\<close>

text \<open>
  C4. In both files, a row of the quality summary whose group (strategy, alpha,
  op_set_str) holds exactly one row of the table has \<open>std_obj\<close> equal to NaN, not to
  zero, and its \<open>CV_obj\<close> is NaN as well.
\<close>

theorem single_run_group_undefined:
  "\<forall>(k, r) \<in> set (quality_summary df) \<union> set (quality_summary_v2 df).
     length (filter (\<lambda>x. config_key x = Some k) df) = 1 \<longrightarrow>
       std_obj r = NaN \<and> std_obj r \<noteq> Fin 0 \<and> CV_obj r = NaN"
  by (auto simp: quality_summary_mem quality_summary_v2_mem
      std_obj_add_CV_obj std_obj_add_CV_obj_v2 CV_obj_add_CV_obj CV_obj_add_CV_obj_v2
      quality_agg_def agg_std_single)

theorem single_run_group_undefined_witness:
  "hd (quality_summary single_run_table) \<in> set (quality_summary single_run_table) \<and>
   length (filter (\<lambda>x. config_key x = Some (fst (hd (quality_summary single_run_table))))
             single_run_table) = 1 \<and>
   std_obj (snd (hd (quality_summary single_run_table))) = NaN \<and>
   CV_obj (snd (hd (quality_summary single_run_table))) = NaN"
proof -
  have ev: "quality_summary single_run_table =
      [((''X'', 1, ''[a]''),
        \<lparr>q_agg.mean_obj = Fin 10, std_obj = NaN, q_agg.mean_time = Fin 2, num_runs = 1,
         CV_obj = NaN\<rparr>)]"
    by (simp add: single_run_table_def eval_defs)
  have mem: "hd (quality_summary single_run_table) \<in> set (quality_summary single_run_table)"
    by (simp add: ev)
  have one: "length (filter (\<lambda>x. config_key x = Some (fst (hd (quality_summary single_run_table))))
      single_run_table) = 1"
    unfolding ev by (simp add: single_run_table_def eval_defs)
  from single_run_group_undefined [of single_run_table] mem one
  have "std_obj (snd (hd (quality_summary single_run_table))) = NaN \<and>
        CV_obj (snd (hd (quality_summary single_run_table))) = NaN"
    by (fastforce simp: case_prod_beta)
  with mem one show ?thesis by blast
qed

section \<open>The loader and the missing file\<close>

lemma truncate_add_op_set_str: "run.truncate (add_op_set_str r) = r"
  by (simp add: add_op_set_str_def run.defs)

lemma op_set_str_add_op_set_str: "op_set_str (add_op_set_str r) = astype_str (op_set r)"
  by (simp add: add_op_set_str_def run.defs)

lemma op_set_add_op_set_str: "op_set (add_op_set_str r) = op_set r"
  by (simp add: add_op_set_str_def run.defs)

lemma run_steps_not_found:
  "fs RESULTS_FILE = None \<Longrightarrow>
     run_steps s1 s2 s3 fs = ([Loading RESULTS_FILE, FileNotFound RESULTS_FILE], Inr ())"
  by (simp add: run_steps_def load_and_prepare_data_def)

text \<open>
  C5. For a path that does not exist the loader returns \<open>None\<close>; \<open>main_analysis\<close> (of
  either file) then returns normally having printed only the loader's two lines, so no
  step was entered (each step prints its header first). For a path that loads, the
  loader returns the table that was read, each row extended by \<open>op_set_str\<close>, the
  string rendering of its \<open>op_set\<close>.
\<close>

theorem loader_contract:
  "(fs p = None \<longrightarrow> snd (load_and_prepare_data fs p) = None) \<and>
   (fs RESULTS_FILE = None \<longrightarrow>
      main_analysis fs = ([Loading RESULTS_FILE, FileNotFound RESULTS_FILE], Inr ()) \<and>
      main_analysis_v2 fs = ([Loading RESULTS_FILE, FileNotFound RESULTS_FILE], Inr ()) \<and>
      (\<forall>n. StepHeader n \<notin> set (fst (main_analysis fs)) \<and>
           StepHeader n \<notin> set (fst (main_analysis_v2 fs)))) \<and>
   (fs' p' = Some raw \<longrightarrow>
      (\<exists>df. snd (load_and_prepare_data fs' p') = Some df \<and>
            map run.truncate df = raw \<and>
            (\<forall>r \<in> set df. op_set_str r = astype_str (op_set r))))"
  by (auto simp: main_analysis_def main_analysis_v2_def run_steps_not_found
      load_and_prepare_data_def comp_def truncate_add_op_set_str
      op_set_str_add_op_set_str op_set_add_op_set_str)

theorem loader_contract_witness:
  "Map.empty RESULTS_FILE = None \<and>
   snd (load_and_prepare_data Map.empty RESULTS_FILE) = None \<and>
   fst (main_analysis Map.empty) = [Loading RESULTS_FILE, FileNotFound RESULTS_FILE] \<and>
   example_fs RESULTS_FILE = Some example_raw \<and>
   (\<exists>df. snd (load_and_prepare_data example_fs RESULTS_FILE) = Some df \<and>
         length df = 2 \<and> (\<forall>r \<in> set df. op_set_str r = astype_str (op_set r)))"
proof -
  have a: "(Map.empty :: file_system) RESULTS_FILE = None" by simp
  have b: "example_fs RESULTS_FILE = Some example_raw" by (simp add: example_fs_def)
  from loader_contract [of Map.empty RESULTS_FILE example_fs RESULTS_FILE example_raw] a b
  obtain df where "snd (load_and_prepare_data Map.empty RESULTS_FILE) = None"
    "fst (main_analysis Map.empty) = [Loading RESULTS_FILE, FileNotFound RESULTS_FILE]"
    "snd (load_and_prepare_data example_fs RESULTS_FILE) = Some df"
    "map run.truncate df = example_raw"
    "\<forall>r \<in> set df. op_set_str r = astype_str (op_set r)"
    by auto
  moreover from this have "length df = 2"
    using length_map [of run.truncate df] by (simp add: example_raw_def)
  ultimately show ?thesis using a b by blast
qed

section \<open>The coefficient of variation\<close>

text \<open>
  In evaluator_v2.py every row of the quality summary has
  \<open>CV_obj = std_obj / |mean_obj| * 100\<close>; evaluator.py divides by \<open>mean_obj\<close> itself.
\<close>

lemma CV_obj_quality_summary_v2:
  "(k, r) \<in> set (quality_summary_v2 df) \<Longrightarrow>
     CV_obj r = fmul (fdiv (std_obj r) (fabs (q_agg.mean_obj r))) (Fin 100)"
  by (auto simp: quality_summary_v2_mem add_CV_obj_v2_def q_agg.defs)

lemma CV_obj_quality_summary:
  "(k, r) \<in> set (quality_summary df) \<Longrightarrow>
     CV_obj r = fmul (fdiv (std_obj r) (q_agg.mean_obj r)) (Fin 100)"
  by (auto simp: quality_summary_mem add_CV_obj_def q_agg.defs)

text \<open>
  C1. On three runs of one configuration with the objectives -10, -20 and -30,
  evaluator.py reports \<open>mean_obj = -20\<close>, \<open>std_obj = 10\<close> and \<open>CV_obj = -50\<close>, whereas
  \<open>std_obj / |mean_obj| * 100\<close> is 50, the value evaluator_v2.py reports.
\<close>

theorem CV_obj_negative_mean:
  "quality_summary negative_table =
     [((''X'', 1, ''[a]''),
       \<lparr>q_agg.mean_obj = Fin (- 20), std_obj = Fin 10, q_agg.mean_time = Fin 2, num_runs = 3,
        CV_obj = Fin (- 50)\<rparr>)] \<and>
   fmul (fdiv (Fin 10) (fabs (Fin (- 20)))) (Fin 100) = Fin 50 \<and>
   map (CV_obj \<circ> snd) (quality_summary_v2 negative_table) = [Fin 50]"
  by (simp add: negative_table_def eval_defs)

section \<open>The trade-off comparison\<close>

lemmas step2_defs =
  analyze_efficiency_and_tradeoff_def analyze_efficiency_and_tradeoff_v2_def
  tradeoff_interpretation_def tradeoff_interpretation_v2_def tradeoff_body_v2_def
  raise_or_def loc_def fless_def fle_def

text \<open>
  C2. On a table that has rows of the strategy \<open>first\<close> only, the efficiency analyzer
  of evaluator.py ends with KeyError (after it has printed both tables); the one of
  evaluator_v2.py returns normally and prints no trade-off line.
\<close>

theorem missing_best_raises_KeyError:
  "snd (analyze_efficiency_and_tradeoff first_only_table) = Inl KeyError \<and>
   analyze_efficiency_and_tradeoff_v2 first_only_table =
     ([StepHeader 2, EfficiencyTable (printed_efficiency_summary_v2 first_only_table),
       OpSetTable (op_summary first_only_table)], Inr ()) \<and>
   map fst (efficiency_summary first_only_table) = [''first'']"
  by (simp add: first_only_table_def step2_defs eval_defs)

section \<open>Sorted summaries\<close>

lemma sorted_sort_values_asc:
  "sorted_wrt (\<lambda>a b. ordered_asc (col (snd a)) (col (snd b))) (sort_values col True df)"
proof -
  let ?f = "\<lambda>r. fkey (col (snd r))"
  let ?xs = "filter (\<lambda>r. col (snd r) \<noteq> NaN) df"
  have "sorted_wrt (\<lambda>a b. ?f a \<le> ?f b) (sort_key ?f ?xs)"
    using sorted_sort_key [of ?f ?xs] by (simp add: sorted_map)
  then have "sorted_wrt (\<lambda>a b. ordered_asc (col (snd a)) (col (snd b))) (sort_key ?f ?xs)"
    by (rule sorted_wrt_mono_rel [rotated]) (auto simp: ordered_asc_def fle_def)
  moreover have "sorted_wrt (\<lambda>a b. ordered_asc (col (snd a)) (col (snd b)))
      (filter (\<lambda>r. col (snd r) = NaN) df)"
    by (rule sorted_wrt_mono_rel [of _ "\<lambda>_ _. True"]) (auto simp: ordered_asc_def)
  ultimately show ?thesis
    by (auto simp: sort_values_def Let_def sorted_wrt_append ordered_asc_def)
qed

lemma sorted_sort_values_desc:
  "sorted_wrt (\<lambda>a b. ordered_desc (col (snd a)) (col (snd b))) (sort_values col False df)"
proof -
  let ?f = "\<lambda>r. fkey (col (snd r))"
  let ?xs = "rev (filter (\<lambda>r. col (snd r) \<noteq> NaN) df)"
  have "sorted_wrt (\<lambda>a b. ?f a \<le> ?f b) (sort_key ?f ?xs)"
    using sorted_sort_key [of ?f ?xs] by (simp add: sorted_map)
  then have "sorted_wrt (\<lambda>a b. ordered_desc (col (snd b)) (col (snd a))) (sort_key ?f ?xs)"
    by (rule sorted_wrt_mono_rel [rotated]) (auto simp: ordered_desc_def fle_def)
  then have "sorted_wrt (\<lambda>a b. ordered_desc (col (snd a)) (col (snd b)))
      (rev (sort_key ?f ?xs))"
    by (simp add: sorted_wrt_rev)
  moreover have "sorted_wrt (\<lambda>a b. ordered_desc (col (snd a)) (col (snd b)))
      (filter (\<lambda>r. col (snd r) = NaN) df)"
    by (rule sorted_wrt_mono_rel [of _ "\<lambda>_ _. True"]) (auto simp: ordered_desc_def)
  ultimately show ?thesis
    by (auto simp: sort_values_def Let_def sorted_wrt_append ordered_desc_def)
qed

lemma mean_obj_add_CV_obj: "q_agg.mean_obj (add_CV_obj r) = q_agg.mean_obj r"
  by (simp add: add_CV_obj_def q_agg.defs)

lemma mean_obj_add_CV_obj_v2: "q_agg.mean_obj (add_CV_obj_v2 r) = q_agg.mean_obj r"
  by (simp add: add_CV_obj_v2_def q_agg.defs)

section \<open>The trade-off in scenario B\<close>

text \<open>
  C7. In evaluator.py, when the strategy table has \<open>first\<close> with mean time 1 and mean
  objective 100 and \<open>best\<close> with mean time 5 and mean objective 90, the comparison
  \<open>1 < 5\<close> holds, and the analyzer prints the trade-off with
  \<open>time_ratio = 5\<close> and \<open>quality_diff = (100 / 90 - 1) * 100\<close>, which is 11.11 to two
  decimals.
\<close>

theorem tradeoff_scenario_B:
  assumes "map_of (efficiency_summary df) ''first'' = Some f"
    and "map_of (efficiency_summary df) ''best'' = Some b"
    and "e_agg.mean_time f = Fin 1" and "e_agg.mean_obj f = Fin 100"
    and "e_agg.mean_time b = Fin 5" and "e_agg.mean_obj b = Fin 90"
  shows "fless (e_agg.mean_time f) (e_agg.mean_time b) \<and>
     analyze_efficiency_and_tradeoff df =
       ([StepHeader 2, EfficiencyTable (printed_efficiency_summary df),
         OpSetTable (op_summary df), Tradeoff (Fin 5) (Fin ((100 / 90 - 1) * 100))], Inr ()) \<and>
     \<bar>(100 / 90 - 1) * 100 - 11.11\<bar> < (0.005 :: real)"
  using assms
  by (simp add: analyze_efficiency_and_tradeoff_def tradeoff_interpretation_def raise_or_def
      loc_def fless_def)

theorem tradeoff_scenario_B_witness:
  "(\<exists>f b. map_of (efficiency_summary scenario_B) ''first'' = Some f \<and>
          map_of (efficiency_summary scenario_B) ''best'' = Some b \<and>
          e_agg.mean_time f = Fin 1 \<and> e_agg.mean_obj f = Fin 100 \<and>
          e_agg.mean_time b = Fin 5 \<and> e_agg.mean_obj b = Fin 90) \<and>
   snd (analyze_efficiency_and_tradeoff scenario_B) = Inr () \<and>
   last (fst (analyze_efficiency_and_tradeoff scenario_B)) = Tradeoff (Fin 5) (Fin (100 / 9))"
proof -
  let ?f = "\<lparr>e_agg.mean_obj = Fin 100, e_agg.mean_time = Fin 1, mean_iterations = Fin 7,
             e_row.performance_metric = Fin 100\<rparr>"
  let ?b = "\<lparr>e_agg.mean_obj = Fin 90, e_agg.mean_time = Fin 5, mean_iterations = Fin 9,
             e_row.performance_metric = Fin 450\<rparr>"
  have ev: "efficiency_summary scenario_B = [(''best'', ?b), (''first'', ?f)]"
    by (simp add: scenario_B_def example_raw_def eval_defs)
  have f: "map_of (efficiency_summary scenario_B) ''first'' = Some ?f"
    and b: "map_of (efficiency_summary scenario_B) ''best'' = Some ?b"
    by (simp_all add: ev)
  from tradeoff_scenario_B [OF f b]
  have "analyze_efficiency_and_tradeoff scenario_B =
       ([StepHeader 2, EfficiencyTable (printed_efficiency_summary scenario_B),
         OpSetTable (op_summary scenario_B), Tradeoff (Fin 5) (Fin ((100 / 90 - 1) * 100))], Inr ())"
    by simp
  then have "snd (analyze_efficiency_and_tradeoff scenario_B) = Inr () \<and>
     last (fst (analyze_efficiency_and_tradeoff scenario_B)) = Tradeoff (Fin 5) (Fin (100 / 9))"
    by simp
  moreover have "e_agg.mean_time ?f = Fin 1 \<and> e_agg.mean_obj ?f = Fin 100 \<and>
          e_agg.mean_time ?b = Fin 5 \<and> e_agg.mean_obj ?b = Fin 90" by simp
  ultimately show ?thesis using f b by blast
qed

lemma map_of_efficiency_summary:
  "map_of (efficiency_summary df) l =
     map_option add_performance_metric
       (map_of (map (\<lambda>(k, g). (k, efficiency_agg g)) (groupby strategy df)) l)"
  by (simp add: efficiency_summary_def map_of_map del: map_map)

lemma map_of_efficiency_summary_v2:
  "map_of (efficiency_summary_v2 df) l =
     map_option add_performance_metric_v2
       (map_of (map (\<lambda>(k, g). (k, efficiency_agg g)) (groupby strategy df)) l)"
  by (simp add: efficiency_summary_v2_def map_of_map del: map_map)

lemma mean_time_add_performance_metric:
  "e_agg.mean_time (add_performance_metric r) = e_agg.mean_time r"
  "e_agg.mean_time (add_performance_metric_v2 r) = e_agg.mean_time r"
  by (simp_all add: add_performance_metric_def add_performance_metric_v2_def e_agg.defs)

lemma not_fless_if_fle: "fle y x \<Longrightarrow> \<not> fless x y"
  by (auto simp: fle_def fless_def)

text \<open>
  C9. When both \<open>first\<close> and \<open>best\<close> are in the strategy table and the mean time of
  \<open>first\<close> is greater than or equal to that of \<open>best\<close>, the analyzer of either file
  prints its two tables and nothing else, and returns normally. (The two files' strategy
  tables have the same \<open>mean_time\<close> column.)
\<close>

theorem no_tradeoff_when_first_not_faster:
  assumes "map_of (efficiency_summary df) ''first'' = Some f"
    and "map_of (efficiency_summary df) ''best'' = Some b"
    and "fle (e_agg.mean_time b) (e_agg.mean_time f)"
  shows "analyze_efficiency_and_tradeoff df =
       ([StepHeader 2, EfficiencyTable (printed_efficiency_summary df),
         OpSetTable (op_summary df)], Inr ()) \<and>
     analyze_efficiency_and_tradeoff_v2 df =
       ([StepHeader 2, EfficiencyTable (printed_efficiency_summary_v2 df),
         OpSetTable (op_summary df)], Inr ())"
proof -
  from assms(1) obtain gf where gf: "map_of (efficiency_summary_v2 df) ''first'' =
      Some (add_performance_metric_v2 gf)" "e_agg.mean_time gf = e_agg.mean_time f"
    by (auto simp: map_of_efficiency_summary map_of_efficiency_summary_v2
        mean_time_add_performance_metric)
  from assms(2) obtain gb where gb: "map_of (efficiency_summary_v2 df) ''best'' =
      Some (add_performance_metric_v2 gb)" "e_agg.mean_time gb = e_agg.mean_time b"
    by (auto simp: map_of_efficiency_summary map_of_efficiency_summary_v2
        mean_time_add_performance_metric)
  have nl: "\<not> fless (e_agg.mean_time f) (e_agg.mean_time b)"
    using assms(3) by (rule not_fless_if_fle)
  have "tradeoff_interpretation (efficiency_summary df) = Inr []"
    using assms(1,2) nl by (simp add: tradeoff_interpretation_def raise_or_def loc_def)
  moreover have "tradeoff_interpretation_v2 (efficiency_summary_v2 df) = Inr []"
    using gf gb nl
    by (simp add: tradeoff_interpretation_v2_def tradeoff_body_v2_def raise_or_def loc_def
        mean_time_add_performance_metric)
  ultimately show ?thesis
    by (simp add: analyze_efficiency_and_tradeoff_def analyze_efficiency_and_tradeoff_v2_def)
qed

theorem no_tradeoff_when_first_not_faster_witness:
  "(\<exists>f b. map_of (efficiency_summary reversed_table) ''first'' = Some f \<and>
          map_of (efficiency_summary reversed_table) ''best'' = Some b \<and>
          fle (e_agg.mean_time b) (e_agg.mean_time f)) \<and>
   analyze_efficiency_and_tradeoff reversed_table =
       ([StepHeader 2, EfficiencyTable (printed_efficiency_summary reversed_table),
         OpSetTable (op_summary reversed_table)], Inr ()) \<and>
   analyze_efficiency_and_tradeoff_v2 reversed_table =
       ([StepHeader 2, EfficiencyTable (printed_efficiency_summary_v2 reversed_table),
         OpSetTable (op_summary reversed_table)], Inr ())"
proof -
  let ?f = "\<lparr>e_agg.mean_obj = Fin 100, e_agg.mean_time = Fin 5, mean_iterations = Fin 7,
             e_row.performance_metric = Fin 500\<rparr>"
  let ?b = "\<lparr>e_agg.mean_obj = Fin 90, e_agg.mean_time = Fin 1, mean_iterations = Fin 9,
             e_row.performance_metric = Fin 90\<rparr>"
  have ev: "efficiency_summary reversed_table = [(''best'', ?b), (''first'', ?f)]"
    by (simp add: reversed_table_def eval_defs)
  have f: "map_of (efficiency_summary reversed_table) ''first'' = Some ?f"
    and b: "map_of (efficiency_summary reversed_table) ''best'' = Some ?b"
    by (simp_all add: ev)
  have le: "fle (e_agg.mean_time ?b) (e_agg.mean_time ?f)"
    by (simp add: fle_def)
  from no_tradeoff_when_first_not_faster [OF f b le] f b le show ?thesis by blast
qed

section \<open>The groups of the quality summary\<close>

lemma config_key_eq: "config_key r = Some k \<longleftrightarrow> source_triple r = present_triple k"
  by (auto simp: config_key_def source_triple_def present_triple_def split: option.splits prod.splits)

lemma keys_quality_summary:
  "fst ` set (quality_summary df) = {k. \<exists>r \<in> set df. config_key r = Some k}"
proof -
  have "(\<exists>r. (k, r) \<in> set (quality_summary df)) \<longleftrightarrow>
      (\<exists>x \<in> set df. config_key x = Some k)" for k
    by (simp add: quality_summary_mem)
  moreover have "k \<in> fst ` set (quality_summary df) \<longleftrightarrow>
      (\<exists>r. (k, r) \<in> set (quality_summary df))" for k
    by force
  ultimately show ?thesis by blast
qed

lemma keys_quality_summary_v2:
  "fst ` set (quality_summary_v2 df) = {k. \<exists>r \<in> set df. config_key r = Some k}"
proof -
  have "(\<exists>r. (k, r) \<in> set (quality_summary_v2 df)) \<longleftrightarrow>
      (\<exists>x \<in> set df. config_key x = Some k)" for k
    by (simp add: quality_summary_v2_mem)
  moreover have "k \<in> fst ` set (quality_summary_v2 df) \<longleftrightarrow>
      (\<exists>r. (k, r) \<in> set (quality_summary_v2 df))" for k
    by force
  ultimately show ?thesis by blast
qed

lemma map_fst_sort_values_distinct:
  "distinct (map fst df) \<Longrightarrow> distinct (map fst (sort_values col asc df))"
  by (auto simp: sort_values_def Let_def distinct_map inj_on_def)

lemma distinct_keys_groupby: "distinct (map fst (groupby key df))"
  by (simp add: keys_groupby)

lemma map_fst_map_snd: "map fst (map (\<lambda>(k, r). (k, f r)) xs) = map fst xs"
  by (induction xs) auto

lemma distinct_keys_quality_summary: "distinct (map fst (quality_summary df))"
  unfolding quality_summary_def map_fst_map_snd
  by (rule map_fst_sort_values_distinct) (simp only: map_fst_map_snd distinct_keys_groupby)

lemma distinct_keys_quality_summary_v2: "distinct (map fst (quality_summary_v2 df))"
  unfolding quality_summary_v2_def map_fst_map_snd
  by (rule map_fst_sort_values_distinct) (simp only: map_fst_map_snd distinct_keys_groupby)

lemma num_runs_add_CV_obj:
  "num_runs (add_CV_obj r) = num_runs r" "num_runs (add_CV_obj_v2 r) = num_runs r"
  by (simp_all add: add_CV_obj_def add_CV_obj_v2_def q_agg.defs)

lemma agg_count_filter:
  "agg_count (map f (filter P df)) = length (filter (\<lambda>x. P x \<and> f x \<noteq> None) df)"
  by (induction df) (auto simp: agg_count_def present_def List.map_filter_def)

lemma num_runs_quality_agg:
  "num_runs (quality_agg (filter P df)) = length (filter (\<lambda>x. P x \<and> seed x \<noteq> None) df)"
  by (simp add: quality_agg_def agg_count_filter)

text \<open>
  C8 (amended). In both files the group keys of the quality summary are exactly the
  triples (strategy, alpha, op_set_str) of the rows whose strategy and alpha are both
  present, each once, and \<open>num_runs\<close> of a group is the number of rows with that triple
  whose \<open>seed\<close> is present. On a table without a missing strategy, alpha or seed this is
  the claim as written: the keys are the triples of the table, and \<open>num_runs\<close> is the
  number of rows with the triple.
\<close>

theorem quality_summary_groups:
  "fst ` set (quality_summary df) = {k. \<exists>r \<in> set df. config_key r = Some k} \<and>
   fst ` set (quality_summary_v2 df) = {k. \<exists>r \<in> set df. config_key r = Some k} \<and>
   distinct (map fst (quality_summary df)) \<and> distinct (map fst (quality_summary_v2 df)) \<and>
   (\<forall>(k, r) \<in> set (quality_summary df) \<union> set (quality_summary_v2 df).
      num_runs r = length (filter (\<lambda>x. config_key x = Some k \<and> seed x \<noteq> None) df)) \<and>
   ((\<forall>x \<in> set df. strategy x \<noteq> None \<and> alpha x \<noteq> None \<and> seed x \<noteq> None) \<longrightarrow>
      present_triple ` fst ` set (quality_summary df) = source_triple ` set df \<and>
      present_triple ` fst ` set (quality_summary_v2 df) = source_triple ` set df \<and>
      (\<forall>(k, r) \<in> set (quality_summary df) \<union> set (quality_summary_v2 df).
         num_runs r = length (filter (\<lambda>x. source_triple x = present_triple k) df)))"
proof -
  have nr: "\<forall>(k, r) \<in> set (quality_summary df) \<union> set (quality_summary_v2 df).
      num_runs r = length (filter (\<lambda>x. config_key x = Some k \<and> seed x \<noteq> None) df)"
    by (auto simp: quality_summary_mem quality_summary_v2_mem num_runs_add_CV_obj
        num_runs_quality_agg)
  have full: "present_triple ` {k. \<exists>r \<in> set df. config_key r = Some k} = source_triple ` set df"
    if "\<forall>x \<in> set df. strategy x \<noteq> None \<and> alpha x \<noteq> None \<and> seed x \<noteq> None"
  proof -
    have "\<exists>k. config_key x = Some k" if "x \<in> set df" for x
      using that \<open>\<forall>x \<in> set df. _\<close> by (auto simp: config_key_def split: option.splits)
    then show ?thesis
      by (auto simp: config_key_eq image_iff) (metis config_key_eq)+
  qed
  have cnt: "length (filter (\<lambda>x. config_key x = Some k \<and> seed x \<noteq> None) df) =
      length (filter (\<lambda>x. source_triple x = present_triple k) df)"
    if "\<forall>x \<in> set df. strategy x \<noteq> None \<and> alpha x \<noteq> None \<and> seed x \<noteq> None" for k
    using that by (auto simp: config_key_eq intro!: arg_cong [where f = length] filter_cong)
  show ?thesis
    using nr full cnt
    by (simp add: keys_quality_summary keys_quality_summary_v2 distinct_keys_quality_summary
        distinct_keys_quality_summary_v2 case_prod_beta)
qed

theorem quality_summary_groups_witness:
  "list_all (\<lambda>x. strategy x \<noteq> None \<and> alpha x \<noteq> None \<and> seed x \<noteq> None) scenario_A \<and>
   hd (quality_summary scenario_A) \<in> set (quality_summary scenario_A) \<and>
   present_triple ` fst ` set (quality_summary scenario_A) = source_triple ` set scenario_A \<and>
   num_runs (snd (hd (quality_summary scenario_A))) =
     length (filter (\<lambda>x. source_triple x = present_triple (fst (hd (quality_summary scenario_A))))
       scenario_A) \<and>
   num_runs (snd (hd (quality_summary scenario_A))) = 3"
proof -
  have h: "\<forall>x \<in> set scenario_A. strategy x \<noteq> None \<and> alpha x \<noteq> None \<and> seed x \<noteq> None"
    by (simp add: scenario_A_def eval_defs)
  have ev: "quality_summary scenario_A =
      [((''X'', 1, ''[a]''),
        \<lparr>q_agg.mean_obj = Fin 20, std_obj = Fin 10, q_agg.mean_time = Fin 2, num_runs = 3,
         CV_obj = Fin 50\<rparr>)]"
    by (simp add: scenario_A_def eval_defs)
  have m: "hd (quality_summary scenario_A) \<in> set (quality_summary scenario_A)"
    by (simp add: ev)
  have n: "num_runs (snd (hd (quality_summary scenario_A))) = 3"
    by (simp add: ev)
  from quality_summary_groups [of scenario_A] h
  have A: "present_triple ` fst ` set (quality_summary scenario_A) = source_triple ` set scenario_A"
    and B: "\<forall>(k, r) \<in> set (quality_summary scenario_A) \<union> set (quality_summary_v2 scenario_A).
         num_runs r = length (filter (\<lambda>x. source_triple x = present_triple k) scenario_A)"
    by blast+
  from B m have "num_runs (snd (hd (quality_summary scenario_A))) =
     length (filter (\<lambda>x. source_triple x = present_triple (fst (hd (quality_summary scenario_A))))
       scenario_A)"
    by (fastforce simp: case_prod_beta)
  with h m n A show ?thesis by (simp add: list_all_iff)
qed

text \<open>
  A row without a strategy is in no group although its triple is in the table, and a
  row without a seed is not counted.
\<close>

theorem quality_summary_groups_counterexample:
  "present_triple ` fst ` set (quality_summary missing_strategy_table) \<noteq>
     source_triple ` set missing_strategy_table \<and>
   map (num_runs \<circ> snd) (quality_summary missing_seed_table) = [0] \<and>
   length (filter (\<lambda>x. source_triple x = present_triple (''first'', 1, ''[a]''))
             missing_seed_table) = 1"
  by (simp add: missing_strategy_table_def missing_seed_table_def eval_defs
      source_triple_def present_triple_def)

section \<open>The rows of the strategy and operator-set tables\<close>

lemma op_summary_mem:
  "(k, r) \<in> set (op_summary df) \<longleftrightarrow>
     (\<exists>x \<in> set df. op_set_str x = k) \<and>
     r = op_agg (filter (\<lambda>x. op_set_str x = k) df)"
  by (auto simp: op_summary_def set_sort_values set_groupby image_iff)

lemma distinct_keys_op_summary: "distinct (map fst (op_summary df))"
  unfolding op_summary_def
  by (rule map_fst_sort_values_distinct) (simp only: map_fst_map_snd distinct_keys_groupby)

lemma efficiency_summary_mem:
  "(k, r) \<in> set (efficiency_summary df) \<longleftrightarrow>
     (\<exists>x \<in> set df. strategy x = Some k) \<and>
     r = add_performance_metric (efficiency_agg (filter (\<lambda>x. strategy x = Some k) df))"
  by (auto simp: efficiency_summary_def set_groupby image_iff)

lemma efficiency_summary_v2_mem:
  "(k, r) \<in> set (efficiency_summary_v2 df) \<longleftrightarrow>
     (\<exists>x \<in> set df. strategy x = Some k) \<and>
     r = add_performance_metric_v2 (efficiency_agg (filter (\<lambda>x. strategy x = Some k) df))"
  by (auto simp: efficiency_summary_v2_def set_groupby image_iff)

section \<open>Rows with missing grouping cells\<close>

lemma groupby_filter:
  assumes "\<And>r k. key r = Some k \<Longrightarrow> P r"
  shows "groupby key (filter P df) = groupby key df"
proof -
  have none: "key r = None" if "\<not> P r" for r
    using that assms by (cases "key r") auto
  have a: "List.map_filter key (filter P df) = List.map_filter key df"
    by (induction df) (auto simp: List.map_filter_simps none split: option.splits)
  have b: "filter (\<lambda>r. key r = Some k) (filter P df) = filter (\<lambda>r. key r = Some k) df" for k
    using assms by (auto intro: filter_cong)
  show ?thesis by (simp only: groupby_def a b)
qed

lemma config_key_has_config: "config_key r = Some k \<Longrightarrow> has_config r"
  by (auto simp: config_key_def has_config_def split: option.splits)

lemma strategy_alpha_key_has_config: "strategy_alpha_key r = Some k \<Longrightarrow> has_config r"
  by (auto simp: strategy_alpha_key_def has_config_def split: option.splits)

lemma strategy_has_strategy: "strategy r = Some k \<Longrightarrow> has_strategy r"
  by (simp add: has_strategy_def)

text \<open>
  C10 (amended). A row whose strategy or alpha is missing contributes to neither the
  quality summary nor the visualization aggregate (of either file), and a row whose
  strategy is missing does not contribute to the strategy table: each of these frames is
  the same when such rows are removed first. A row whose only missing grouping cell is
  alpha still contributes to the strategy table: the row of a strategy holds the means
  over all rows of the table with that strategy. Every row contributes to the
  operator-set table: the row of an operator set holds the means over all rows of the
  table with that \<open>op_set_str\<close>. A row whose \<open>op_set\<close> is missing is kept: with
  strategy and alpha present it forms the group key with \<open>op_set_str = nan\<close> in the
  quality summary, and \<open>nan\<close> is a key of the operator-set table.
\<close>

theorem missing_keys_excluded:
  "quality_summary (filter has_config df) = quality_summary df \<and>
   quality_summary_v2 (filter has_config df) = quality_summary_v2 df \<and>
   df_agg (filter has_config df) = df_agg df \<and>
   df_agg_v2 (filter has_config df) = df_agg_v2 df \<and>
   efficiency_summary (filter has_strategy df) = efficiency_summary df \<and>
   efficiency_summary_v2 (filter has_strategy df) = efficiency_summary_v2 df \<and>
   (\<forall>k r. (k, r) \<in> set (efficiency_summary df) \<longleftrightarrow>
      (\<exists>x \<in> set df. strategy x = Some k) \<and>
      r = add_performance_metric
            \<lparr>e_agg.mean_obj = agg_mean (map final_obj (filter (\<lambda>x. strategy x = Some k) df)),
             e_agg.mean_time = agg_mean (map total_time (filter (\<lambda>x. strategy x = Some k) df)),
             mean_iterations = agg_mean (map iterations (filter (\<lambda>x. strategy x = Some k) df))\<rparr>) \<and>
   (\<forall>k r. (k, r) \<in> set (efficiency_summary_v2 df) \<longleftrightarrow>
      (\<exists>x \<in> set df. strategy x = Some k) \<and>
      r = add_performance_metric_v2
            \<lparr>e_agg.mean_obj = agg_mean (map final_obj (filter (\<lambda>x. strategy x = Some k) df)),
             e_agg.mean_time = agg_mean (map total_time (filter (\<lambda>x. strategy x = Some k) df)),
             mean_iterations = agg_mean (map iterations (filter (\<lambda>x. strategy x = Some k) df))\<rparr>) \<and>
   (\<forall>k r. (k, r) \<in> set (op_summary df) \<longleftrightarrow>
      (\<exists>x \<in> set df. op_set_str x = k) \<and>
      r = \<lparr>o_row.mean_obj = agg_mean (map final_obj (filter (\<lambda>x. op_set_str x = k) df)),
           o_row.mean_time = agg_mean (map total_time (filter (\<lambda>x. op_set_str x = k) df))\<rparr>) \<and>
   (\<forall>r \<in> set raw. strategy r = Some s \<and> alpha r = Some a \<and> op_set r = None \<longrightarrow>
      (s, a, ''nan'') \<in> fst ` set (quality_summary (map add_op_set_str raw)) \<and>
      (s, a, ''nan'') \<in> fst ` set (quality_summary_v2 (map add_op_set_str raw)) \<and>
      ''nan'' \<in> fst ` set (op_summary (map add_op_set_str raw)))"
proof -
  have nan: "config_key (add_op_set_str r) = Some (s, a, ''nan'')"
    "op_set_str (add_op_set_str r) = ''nan''"
    if "strategy r = Some s" "alpha r = Some a" "op_set r = None" for r
    using that by (simp_all add: config_key_def add_op_set_str_def astype_str_def run.defs)
  have op: "''nan'' \<in> fst ` set (op_summary (map add_op_set_str raw))"
    if "r \<in> set raw" "strategy r = Some s" "alpha r = Some a" "op_set r = None" for r
    using that nan(2) [of r]
    by (force simp: op_summary_def set_sort_values set_groupby image_iff)
  have q: "(s, a, ''nan'') \<in> {k. \<exists>x \<in> set (map add_op_set_str raw). config_key x = Some k}"
    if "r \<in> set raw" "strategy r = Some s" "alpha r = Some a" "op_set r = None" for r
    using that nan(1) [of r] by auto
  have part1: "quality_summary (filter has_config df) = quality_summary df"
    "quality_summary_v2 (filter has_config df) = quality_summary_v2 df"
    by (simp_all add: quality_summary_def quality_summary_v2_def
        groupby_filter [OF config_key_has_config])
  have part2: "df_agg (filter has_config df) = df_agg df"
    "df_agg_v2 (filter has_config df) = df_agg_v2 df"
    by (simp_all add: df_agg_def df_agg_v2_def groupby_filter [OF strategy_alpha_key_has_config])
  have part3: "efficiency_summary (filter has_strategy df) = efficiency_summary df"
    "efficiency_summary_v2 (filter has_strategy df) = efficiency_summary_v2 df"
    by (simp_all add: efficiency_summary_def efficiency_summary_v2_def
        groupby_filter [OF strategy_has_strategy])
  have part4: "\<forall>k r. (k, r) \<in> set (efficiency_summary df) \<longleftrightarrow>
      (\<exists>x \<in> set df. strategy x = Some k) \<and>
      r = add_performance_metric
            \<lparr>e_agg.mean_obj = agg_mean (map final_obj (filter (\<lambda>x. strategy x = Some k) df)),
             e_agg.mean_time = agg_mean (map total_time (filter (\<lambda>x. strategy x = Some k) df)),
             mean_iterations = agg_mean (map iterations (filter (\<lambda>x. strategy x = Some k) df))\<rparr>"
    by (simp add: efficiency_summary_mem efficiency_agg_def)
  have part5: "\<forall>k r. (k, r) \<in> set (efficiency_summary_v2 df) \<longleftrightarrow>
      (\<exists>x \<in> set df. strategy x = Some k) \<and>
      r = add_performance_metric_v2
            \<lparr>e_agg.mean_obj = agg_mean (map final_obj (filter (\<lambda>x. strategy x = Some k) df)),
             e_agg.mean_time = agg_mean (map total_time (filter (\<lambda>x. strategy x = Some k) df)),
             mean_iterations = agg_mean (map iterations (filter (\<lambda>x. strategy x = Some k) df))\<rparr>"
    by (simp add: efficiency_summary_v2_mem efficiency_agg_def)
  have part6: "\<forall>k r. (k, r) \<in> set (op_summary df) \<longleftrightarrow>
      (\<exists>x \<in> set df. op_set_str x = k) \<and>
      r = \<lparr>o_row.mean_obj = agg_mean (map final_obj (filter (\<lambda>x. op_set_str x = k) df)),
           o_row.mean_time = agg_mean (map total_time (filter (\<lambda>x. op_set_str x = k) df))\<rparr>"
    by (simp add: op_summary_mem op_agg_def)
  have part7: "\<forall>r \<in> set raw. strategy r = Some s \<and> alpha r = Some a \<and> op_set r = None \<longrightarrow>
      (s, a, ''nan'') \<in> fst ` set (quality_summary (map add_op_set_str raw)) \<and>
      (s, a, ''nan'') \<in> fst ` set (quality_summary_v2 (map add_op_set_str raw)) \<and>
      ''nan'' \<in> fst ` set (op_summary (map add_op_set_str raw))"
    unfolding keys_quality_summary keys_quality_summary_v2 using op q by blast
  from part1 part2 part3 part4 part5 part6 part7 show ?thesis
    by (intro conjI)
qed

theorem missing_keys_excluded_witness:
  "hd missing_cells_raw \<in> set missing_cells_raw \<and>
   strategy (hd missing_cells_raw) = Some ''first'' \<and>
   alpha (hd missing_cells_raw) = Some 1 \<and>
   op_set (hd missing_cells_raw) = None \<and>
   (''first'', 1, ''nan'') \<in> fst ` set (quality_summary (map add_op_set_str missing_cells_raw)) \<and>
   length (filter has_config (map add_op_set_str missing_cells_raw)) = 2 \<and>
   quality_summary (filter has_config (map add_op_set_str missing_cells_raw)) =
     quality_summary (map add_op_set_str missing_cells_raw) \<and>
   map fst (quality_summary (map add_op_set_str missing_cells_raw)) =
     [(''best'', 2, ''[b]''), (''first'', 1, ''nan'')] \<and>
   map (\<lambda>(k, r). (k, e_agg.mean_obj r)) (efficiency_summary (map add_op_set_str missing_cells_raw)) =
     [(''best'', Fin 80), (''first'', Fin 100)] \<and>
   (''best'', add_performance_metric
       \<lparr>e_agg.mean_obj = Fin 80, e_agg.mean_time = Fin 4, mean_iterations = Fin 9\<rparr>)
     \<in> set (efficiency_summary (map add_op_set_str missing_cells_raw)) \<and>
   (''[a]'', \<lparr>o_row.mean_obj = Fin 80, o_row.mean_time = Fin 1\<rparr>)
     \<in> set (op_summary (map add_op_set_str missing_cells_raw))"
proof -
  let ?df = "map add_op_set_str missing_cells_raw"
  have h: "hd missing_cells_raw \<in> set missing_cells_raw \<and>
      strategy (hd missing_cells_raw) = Some ''first'' \<and>
      alpha (hd missing_cells_raw) = Some 1 \<and>
      op_set (hd missing_cells_raw) = None"
    by (simp add: missing_cells_raw_def mk_run_def)
  have l: "length (filter has_config ?df) = 2"
    by (simp add: missing_cells_raw_def has_config_def eval_defs)
  have e1: "map fst (quality_summary ?df) = [(''best'', 2, ''[b]''), (''first'', 1, ''nan'')]"
    by (simp add: missing_cells_raw_def eval_defs)
  have e2: "map (\<lambda>(k, r). (k, e_agg.mean_obj r)) (efficiency_summary ?df) =
     [(''best'', Fin 80), (''first'', Fin 100)]"
    by (simp add: missing_cells_raw_def eval_defs)
  have b: "\<exists>x \<in> set ?df. strategy x = Some ''best''"
    by (simp add: missing_cells_raw_def eval_defs)
  have bm: "\<lparr>e_agg.mean_obj = agg_mean (map final_obj (filter (\<lambda>x. strategy x = Some ''best'') ?df)),
       e_agg.mean_time = agg_mean (map total_time (filter (\<lambda>x. strategy x = Some ''best'') ?df)),
       mean_iterations = agg_mean (map iterations (filter (\<lambda>x. strategy x = Some ''best'') ?df))\<rparr> =
     \<lparr>e_agg.mean_obj = Fin 80, e_agg.mean_time = Fin 4, mean_iterations = Fin 9\<rparr>"
    by (simp add: missing_cells_raw_def eval_defs)
  have o: "\<exists>x \<in> set ?df. op_set_str x = ''[a]''"
    by (simp add: missing_cells_raw_def eval_defs)
  have om: "\<lparr>o_row.mean_obj = agg_mean (map final_obj (filter (\<lambda>x. op_set_str x = ''[a]'') ?df)),
       o_row.mean_time = agg_mean (map total_time (filter (\<lambda>x. op_set_str x = ''[a]'') ?df))\<rparr> =
     \<lparr>o_row.mean_obj = Fin 80, o_row.mean_time = Fin 1\<rparr>"
    by (simp add: missing_cells_raw_def eval_defs)
  note inst = missing_keys_excluded [of ?df missing_cells_raw "''first''" 1]
  from inst h have a1: "(''first'', 1, ''nan'') \<in> fst ` set (quality_summary ?df)"
    by blast
  from inst have a2: "quality_summary (filter has_config ?df) = quality_summary ?df"
    by blast
  from inst have "(''best'', add_performance_metric
       \<lparr>e_agg.mean_obj = agg_mean (map final_obj (filter (\<lambda>x. strategy x = Some ''best'') ?df)),
       e_agg.mean_time = agg_mean (map total_time (filter (\<lambda>x. strategy x = Some ''best'') ?df)),
       mean_iterations = agg_mean (map iterations (filter (\<lambda>x. strategy x = Some ''best'') ?df))\<rparr>)
     \<in> set (efficiency_summary ?df)"
    using b by blast
  then have a3: "(''best'', add_performance_metric
       \<lparr>e_agg.mean_obj = Fin 80, e_agg.mean_time = Fin 4, mean_iterations = Fin 9\<rparr>)
     \<in> set (efficiency_summary ?df)"
    unfolding bm .
  from inst have "(''[a]'',
      \<lparr>o_row.mean_obj = agg_mean (map final_obj (filter (\<lambda>x. op_set_str x = ''[a]'') ?df)),
       o_row.mean_time = agg_mean (map total_time (filter (\<lambda>x. op_set_str x = ''[a]'') ?df))\<rparr>)
     \<in> set (op_summary ?df)"
    using o by blast
  then have a4: "(''[a]'', \<lparr>o_row.mean_obj = Fin 80, o_row.mean_time = Fin 1\<rparr>) \<in> set (op_summary ?df)"
    unfolding om .
  from h l e1 e2 a1 a2 a3 a4 show ?thesis by (intro conjI) blast+
qed

text \<open>
  A row without alpha still counts in the operator-set table and in the strategy table.
\<close>

theorem missing_keys_excluded_counterexample:
  "op_summary (filter has_config missing_alpha_table) = [] \<and>
   map fst (op_summary missing_alpha_table) = [''[a]''] \<and>
   efficiency_summary (filter has_config missing_alpha_table) = [] \<and>
   map fst (efficiency_summary missing_alpha_table) = [''first''] \<and>
   op_summary (filter has_config missing_alpha_table) \<noteq> op_summary missing_alpha_table \<and>
   efficiency_summary (filter has_config missing_alpha_table) \<noteq>
     efficiency_summary missing_alpha_table"
  by (simp add: missing_alpha_table_def has_config_def eval_defs)

section \<open>The performance metric and the order of the strategy table\<close>

lemma performance_metric_add:
  "e_row.performance_metric (add_performance_metric r) = fmul (e_agg.mean_obj r) (e_agg.mean_time r)"
  "e_row.performance_metric (add_performance_metric_v2 r) = fdiv (e_agg.mean_obj r) (e_agg.mean_time r)"
  "e_agg.mean_obj (add_performance_metric r) = e_agg.mean_obj r"
  "e_agg.mean_obj (add_performance_metric_v2 r) = e_agg.mean_obj r"
  by (simp_all add: add_performance_metric_def add_performance_metric_v2_def e_agg.defs)

lemma keys_efficiency_summary:
  "map fst (efficiency_summary df) = sort (remdups (List.map_filter strategy df))"
  by (simp add: efficiency_summary_def map_fst_map_snd keys_groupby del: map_map)

text \<open>
  C3 (amended). The metric of a row of the strategy table is \<open>mean_obj * mean_time\<close> in
  evaluator.py and \<open>mean_obj / mean_time\<close> in evaluator_v2.py. evaluator_v2.py prints the
  table sorted descending by the metric (rows with an undefined metric last).
  evaluator.py prints the table as grouped, in ascending order of the strategy label.
\<close>

theorem performance_metric_and_order:
  "(\<forall>(k, r) \<in> set (efficiency_summary df).
      e_row.performance_metric r = fmul (e_agg.mean_obj r) (e_agg.mean_time r)) \<and>
   (\<forall>(k, r) \<in> set (efficiency_summary_v2 df).
      e_row.performance_metric r = fdiv (e_agg.mean_obj r) (e_agg.mean_time r)) \<and>
   set (printed_efficiency_summary_v2 df) = set (efficiency_summary_v2 df) \<and>
   sorted_wrt (\<lambda>a b. ordered_desc (e_row.performance_metric (snd a))
                                  (e_row.performance_metric (snd b)))
     (printed_efficiency_summary_v2 df) \<and>
   printed_efficiency_summary df = efficiency_summary df \<and>
   sorted (map fst (printed_efficiency_summary df)) \<and>
   distinct (map fst (printed_efficiency_summary df))"
proof -
  have a: "\<forall>(k, r) \<in> set (efficiency_summary df).
      e_row.performance_metric r = fmul (e_agg.mean_obj r) (e_agg.mean_time r)"
    by (auto simp: efficiency_summary_def performance_metric_add
        mean_time_add_performance_metric)
  have b: "\<forall>(k, r) \<in> set (efficiency_summary_v2 df).
      e_row.performance_metric r = fdiv (e_agg.mean_obj r) (e_agg.mean_time r)"
    by (auto simp: efficiency_summary_v2_def performance_metric_add
        mean_time_add_performance_metric)
  show ?thesis
    using a b
    by (simp add: printed_efficiency_summary_v2_def printed_efficiency_summary_def
        set_sort_values sorted_sort_values_desc keys_efficiency_summary)
qed

theorem performance_metric_and_order_witness:
  "hd (efficiency_summary reversed_table) \<in> set (efficiency_summary reversed_table) \<and>
   e_row.performance_metric (snd (hd (efficiency_summary reversed_table))) =
     fmul (e_agg.mean_obj (snd (hd (efficiency_summary reversed_table))))
          (e_agg.mean_time (snd (hd (efficiency_summary reversed_table)))) \<and>
   hd (efficiency_summary_v2 reversed_table) \<in> set (efficiency_summary_v2 reversed_table) \<and>
   e_row.performance_metric (snd (hd (efficiency_summary_v2 reversed_table))) =
     fdiv (e_agg.mean_obj (snd (hd (efficiency_summary_v2 reversed_table))))
          (e_agg.mean_time (snd (hd (efficiency_summary_v2 reversed_table)))) \<and>
   map (e_row.performance_metric \<circ> snd) (printed_efficiency_summary_v2 reversed_table) =
     [Fin 90, Fin 20]"
proof -
  have m1: "hd (efficiency_summary reversed_table) \<in> set (efficiency_summary reversed_table)"
    by (simp add: reversed_table_def eval_defs)
  have m2: "hd (efficiency_summary_v2 reversed_table) \<in> set (efficiency_summary_v2 reversed_table)"
    by (simp add: reversed_table_def eval_defs)
  have ev: "map (e_row.performance_metric \<circ> snd) (printed_efficiency_summary_v2 reversed_table) =
     [Fin 90, Fin 20]"
    by (simp add: reversed_table_def eval_defs)
  from performance_metric_and_order [of reversed_table] m1 m2 ev show ?thesis
    by (auto simp: case_prod_beta)
qed

text \<open>
  On a table where \<open>best\<close> has the smaller product, evaluator.py prints the metrics 90
  and 500 in this order, which is not descending.
\<close>

theorem performance_metric_and_order_counterexample:
  "map (e_row.performance_metric \<circ> snd) (printed_efficiency_summary reversed_table) =
     [Fin 90, Fin 500] \<and>
   \<not> sorted_wrt (\<lambda>a b. ordered_desc (e_row.performance_metric (snd a))
                                    (e_row.performance_metric (snd b)))
       (printed_efficiency_summary reversed_table)"
  by (simp add: reversed_table_def eval_defs ordered_desc_def fle_def)

section \<open>The order of the summaries\<close>

lemma sorted_wrt_defined:
  assumes "sorted_wrt (\<lambda>a b. ordered_asc (f a) (f b)) xs" and "\<forall>x \<in> set xs. f x \<noteq> NaN"
  shows "sorted_wrt (\<lambda>a b. fle (f a) (f b)) xs"
  using assms(2) by (intro sorted_wrt_mono_rel [OF _ assms(1)]) (auto simp: ordered_asc_def)

lemma sorted_wrt_defined_desc:
  assumes "sorted_wrt (\<lambda>a b. ordered_desc (f a) (f b)) xs" and "\<forall>x \<in> set xs. f x \<noteq> NaN"
  shows "sorted_wrt (\<lambda>a b. fle (f b) (f a)) xs"
  using assms(2) by (intro sorted_wrt_mono_rel [OF _ assms(1)]) (auto simp: ordered_desc_def)

lemma quality_summary_sorted:
  "sorted_wrt (\<lambda>a b. ordered_asc (q_agg.mean_obj (snd a)) (q_agg.mean_obj (snd b)))
     (quality_summary df)"
  by (simp add: quality_summary_def sorted_wrt_map case_prod_beta mean_obj_add_CV_obj
      sorted_sort_values_asc)

lemma quality_summary_v2_sorted:
  "sorted_wrt (\<lambda>a b. ordered_desc (q_agg.mean_obj (snd a)) (q_agg.mean_obj (snd b)))
     (quality_summary_v2 df)"
  by (simp add: quality_summary_v2_def sorted_wrt_map case_prod_beta mean_obj_add_CV_obj_v2
      sorted_sort_values_desc)

lemma op_summary_sorted:
  "sorted_wrt (\<lambda>a b. ordered_asc (o_row.mean_time (snd a)) (o_row.mean_time (snd b)))
     (op_summary df)"
  by (simp add: op_summary_def sorted_sort_values_asc)

text \<open>
  C6 (amended). The quality summary holds exactly one row for each group of the table
  and is ordered by \<open>mean_obj\<close> (the mean of the group's objective values, likewise
  \<open>mean_time\<close> below for the times), ascending in evaluator.py and descending in
  evaluator_v2.py, with the rows whose \<open>mean_obj\<close> is undefined (groups without any
  objective value) after all others; the operator-set summary (the same code in both
  files) holds one row for each operator set and is ordered ascending by \<open>mean_time\<close>,
  rows with an undefined \<open>mean_time\<close> last. When no row of a summary has an undefined
  value, the summary is ordered by the float comparison itself.
\<close>

theorem summaries_ordered:
  "(\<forall>k r. (k, r) \<in> set (quality_summary df) \<longleftrightarrow>
      (\<exists>x \<in> set df. config_key x = Some k) \<and>
      r = add_CV_obj (quality_agg (filter (\<lambda>x. config_key x = Some k) df))) \<and>
   distinct (map fst (quality_summary df)) \<and>
   sorted_wrt (\<lambda>a b. ordered_asc (q_agg.mean_obj (snd a)) (q_agg.mean_obj (snd b)))
     (quality_summary df) \<and>
   ((\<forall>x \<in> set (quality_summary df). q_agg.mean_obj (snd x) \<noteq> NaN) \<longrightarrow>
      sorted_wrt (\<lambda>a b. fle (q_agg.mean_obj (snd a)) (q_agg.mean_obj (snd b)))
        (quality_summary df)) \<and>
   (\<forall>k r. (k, r) \<in> set (quality_summary_v2 df) \<longleftrightarrow>
      (\<exists>x \<in> set df. config_key x = Some k) \<and>
      r = add_CV_obj_v2 (quality_agg (filter (\<lambda>x. config_key x = Some k) df))) \<and>
   distinct (map fst (quality_summary_v2 df)) \<and>
   sorted_wrt (\<lambda>a b. ordered_desc (q_agg.mean_obj (snd a)) (q_agg.mean_obj (snd b)))
     (quality_summary_v2 df) \<and>
   ((\<forall>x \<in> set (quality_summary_v2 df). q_agg.mean_obj (snd x) \<noteq> NaN) \<longrightarrow>
      sorted_wrt (\<lambda>a b. fle (q_agg.mean_obj (snd b)) (q_agg.mean_obj (snd a)))
        (quality_summary_v2 df)) \<and>
   (\<forall>k r. (k, r) \<in> set (op_summary df) \<longleftrightarrow>
      (\<exists>x \<in> set df. op_set_str x = k) \<and>
      r = op_agg (filter (\<lambda>x. op_set_str x = k) df)) \<and>
   distinct (map fst (op_summary df)) \<and>
   sorted_wrt (\<lambda>a b. ordered_asc (o_row.mean_time (snd a)) (o_row.mean_time (snd b)))
     (op_summary df) \<and>
   ((\<forall>x \<in> set (op_summary df). o_row.mean_time (snd x) \<noteq> NaN) \<longrightarrow>
      sorted_wrt (\<lambda>a b. fle (o_row.mean_time (snd a)) (o_row.mean_time (snd b)))
        (op_summary df)) \<and>
   (\<forall>(k, r) \<in> set (quality_summary df) \<union> set (quality_summary_v2 df).
      q_agg.mean_obj r = agg_mean (map final_obj (filter (\<lambda>x. config_key x = Some k) df))) \<and>
   (\<forall>(k, r) \<in> set (op_summary df).
      o_row.mean_time r = agg_mean (map total_time (filter (\<lambda>x. op_set_str x = k) df)))"
proof -
  have m1: "\<forall>(k, r) \<in> set (quality_summary df) \<union> set (quality_summary_v2 df).
      q_agg.mean_obj r = agg_mean (map final_obj (filter (\<lambda>x. config_key x = Some k) df))"
    by (auto simp: quality_summary_mem quality_summary_v2_mem mean_obj_add_CV_obj
        mean_obj_add_CV_obj_v2 quality_agg_def)
  have m2: "\<forall>(k, r) \<in> set (op_summary df).
      o_row.mean_time r = agg_mean (map total_time (filter (\<lambda>x. op_set_str x = k) df))"
    by (auto simp: op_summary_mem op_agg_def)
  have q1: "(\<forall>x \<in> set (quality_summary df). q_agg.mean_obj (snd x) \<noteq> NaN) \<longrightarrow>
      sorted_wrt (\<lambda>a b. fle (q_agg.mean_obj (snd a)) (q_agg.mean_obj (snd b)))
        (quality_summary df)"
    using sorted_wrt_defined [OF quality_summary_sorted [of df]] by blast
  have q2: "(\<forall>x \<in> set (quality_summary_v2 df). q_agg.mean_obj (snd x) \<noteq> NaN) \<longrightarrow>
      sorted_wrt (\<lambda>a b. fle (q_agg.mean_obj (snd b)) (q_agg.mean_obj (snd a)))
        (quality_summary_v2 df)"
    using sorted_wrt_defined_desc [OF quality_summary_v2_sorted [of df]] by blast
  have o: "(\<forall>x \<in> set (op_summary df). o_row.mean_time (snd x) \<noteq> NaN) \<longrightarrow>
      sorted_wrt (\<lambda>a b. fle (o_row.mean_time (snd a)) (o_row.mean_time (snd b)))
        (op_summary df)"
    using sorted_wrt_defined [OF op_summary_sorted [of df]] by blast
  have rows: "\<forall>k r. (k, r) \<in> set (quality_summary df) \<longleftrightarrow>
      (\<exists>x \<in> set df. config_key x = Some k) \<and>
      r = add_CV_obj (quality_agg (filter (\<lambda>x. config_key x = Some k) df))"
    "\<forall>k r. (k, r) \<in> set (quality_summary_v2 df) \<longleftrightarrow>
      (\<exists>x \<in> set df. config_key x = Some k) \<and>
      r = add_CV_obj_v2 (quality_agg (filter (\<lambda>x. config_key x = Some k) df))"
    "\<forall>k r. (k, r) \<in> set (op_summary df) \<longleftrightarrow>
      (\<exists>x \<in> set df. op_set_str x = k) \<and>
      r = op_agg (filter (\<lambda>x. op_set_str x = k) df)"
    by (simp_all only: quality_summary_mem quality_summary_v2_mem op_summary_mem simp_thms)
  from rows(1) distinct_keys_quality_summary [of df] quality_summary_sorted [of df] q1
    rows(2) distinct_keys_quality_summary_v2 [of df] quality_summary_v2_sorted [of df] q2
    rows(3) distinct_keys_op_summary [of df] op_summary_sorted [of df] o m1 m2
  show ?thesis by (intro conjI)
qed

theorem summaries_ordered_witness:
  "map (\<lambda>(k, r). (k, q_agg.mean_obj r)) (quality_summary three_config_table) =
     [((''Y'', 1, ''[b]''), Fin 10), ((''Z'', 2, ''[c]''), Fin 20), ((''X'', 1, ''[a]''), Fin 30)] \<and>
   sorted_wrt (\<lambda>a b. fle (q_agg.mean_obj (snd a)) (q_agg.mean_obj (snd b)))
     (quality_summary three_config_table) \<and>
   map (\<lambda>(k, r). (k, q_agg.mean_obj r)) (quality_summary_v2 three_config_table) =
     [((''X'', 1, ''[a]''), Fin 30), ((''Z'', 2, ''[c]''), Fin 20), ((''Y'', 1, ''[b]''), Fin 10)] \<and>
   sorted_wrt (\<lambda>a b. fle (q_agg.mean_obj (snd b)) (q_agg.mean_obj (snd a)))
     (quality_summary_v2 three_config_table) \<and>
   map (\<lambda>(k, r). (k, o_row.mean_time r)) (op_summary three_config_table) =
     [(''[b]'', Fin 1), (''[c]'', Fin 2), (''[a]'', Fin 3)] \<and>
   sorted_wrt (\<lambda>a b. fle (o_row.mean_time (snd a)) (o_row.mean_time (snd b)))
     (op_summary three_config_table)"
proof -
  have e1: "map (\<lambda>(k, r). (k, q_agg.mean_obj r)) (quality_summary three_config_table) =
     [((''Y'', 1, ''[b]''), Fin 10), ((''Z'', 2, ''[c]''), Fin 20), ((''X'', 1, ''[a]''), Fin 30)]"
    by (simp add: three_config_table_def eval_defs)
  have e2: "map (\<lambda>(k, r). (k, q_agg.mean_obj r)) (quality_summary_v2 three_config_table) =
     [((''X'', 1, ''[a]''), Fin 30), ((''Z'', 2, ''[c]''), Fin 20), ((''Y'', 1, ''[b]''), Fin 10)]"
    by (simp add: three_config_table_def eval_defs)
  have e3: "map (\<lambda>(k, r). (k, o_row.mean_time r)) (op_summary three_config_table) =
     [(''[b]'', Fin 1), (''[c]'', Fin 2), (''[a]'', Fin 3)]"
    by (simp add: three_config_table_def eval_defs)
  have d1: "\<forall>x \<in> set (quality_summary three_config_table). q_agg.mean_obj (snd x) \<noteq> NaN"
  proof
    fix x assume "x \<in> set (quality_summary three_config_table)"
    then have "(\<lambda>(k, r). (k, q_agg.mean_obj r)) x \<in>
        set (map (\<lambda>(k, r). (k, q_agg.mean_obj r)) (quality_summary three_config_table))"
      by simp
    then show "q_agg.mean_obj (snd x) \<noteq> NaN"
      unfolding e1 by (auto simp: case_prod_beta)
  qed
  have d2: "\<forall>x \<in> set (quality_summary_v2 three_config_table). q_agg.mean_obj (snd x) \<noteq> NaN"
  proof
    fix x assume "x \<in> set (quality_summary_v2 three_config_table)"
    then have "(\<lambda>(k, r). (k, q_agg.mean_obj r)) x \<in>
        set (map (\<lambda>(k, r). (k, q_agg.mean_obj r)) (quality_summary_v2 three_config_table))"
      by simp
    then show "q_agg.mean_obj (snd x) \<noteq> NaN"
      unfolding e2 by (auto simp: case_prod_beta)
  qed
  have d3: "\<forall>x \<in> set (op_summary three_config_table). o_row.mean_time (snd x) \<noteq> NaN"
  proof
    fix x assume "x \<in> set (op_summary three_config_table)"
    then have "(\<lambda>(k, r). (k, o_row.mean_time r)) x \<in>
        set (map (\<lambda>(k, r). (k, o_row.mean_time r)) (op_summary three_config_table))"
      by simp
    then show "o_row.mean_time (snd x) \<noteq> NaN"
      unfolding e3 by (auto simp: case_prod_beta)
  qed
  from summaries_ordered [of three_config_table] d1 d2 d3 e1 e2 e3 show ?thesis
    by blast
qed

text \<open>
  On a table with one configuration that has no objective and no time, the columns read
  5, NaN and 1, NaN: the last row is not comparable with the row before it.
\<close>

theorem summaries_ordered_counterexample:
  "map (q_agg.mean_obj \<circ> snd) (quality_summary undefined_mean_table) = [Fin 5, NaN] \<and>
   \<not> sorted_wrt (\<lambda>a b. fle (q_agg.mean_obj (snd a)) (q_agg.mean_obj (snd b)))
       (quality_summary undefined_mean_table) \<and>
   map (q_agg.mean_obj \<circ> snd) (quality_summary_v2 undefined_mean_table) = [Fin 5, NaN] \<and>
   \<not> sorted_wrt (\<lambda>a b. fle (q_agg.mean_obj (snd b)) (q_agg.mean_obj (snd a)))
       (quality_summary_v2 undefined_mean_table) \<and>
   map (o_row.mean_time \<circ> snd) (op_summary undefined_mean_table) = [Fin 1, NaN] \<and>
   \<not> sorted_wrt (\<lambda>a b. fle (o_row.mean_time (snd a)) (o_row.mean_time (snd b)))
       (op_summary undefined_mean_table)"
  by (simp add: undefined_mean_table_def eval_defs fle_def)

end
